theory Spec2Isabelle
  imports Main "HOL-Library.Sublist"
begin

section \<open>SystemLogic: active source systems (js/system-logic.js)\<close>

text \<open>
  A JavaScript \<open>Date\<close> holds a time value: an integral number of milliseconds since
  1970-01-01T00:00:00Z, or NaN for an invalid date. The relational operators compare the
  time values as numbers, and every comparison with NaN is false.
\<close>

datatype jsdate = TimeValue int | InvalidDate

fun date_lt :: "jsdate \<Rightarrow> jsdate \<Rightarrow> bool" where
  "date_lt (TimeValue a) (TimeValue b) = (a < b)"
| "date_lt _ _ = False"

fun date_ge :: "jsdate \<Rightarrow> jsdate \<Rightarrow> bool" where
  "date_ge (TimeValue a) (TimeValue b) = (a \<ge> b)"
| "date_ge _ _ = False"

fun date_le :: "jsdate \<Rightarrow> jsdate \<Rightarrow> bool" where
  "date_le (TimeValue a) (TimeValue b) = (a \<le> b)"
| "date_le _ _ = False"

text \<open>\<^verbatim>\<open>new Date('2023-06-03')\<close> and \<^verbatim>\<open>new Date('2015-10-01')\<close>: midnight UTC.\<close>

definition EPIC_GOLIVE :: jsdate where
  "EPIC_GOLIVE = TimeValue 1685750400000"

definition ICD10_START :: jsdate where
  "ICD10_START = TimeValue 1443657600000"

text \<open>The statement \<^verbatim>\<open>if (systems.length === 0) systems.push(d)\<close>.\<close>

definition push_default :: "string \<Rightarrow> string list \<Rightarrow> string list" where
  "push_default d systems = (if length systems = 0 then systems @ [d] else systems)"

definition getDxSystems :: "jsdate \<Rightarrow> jsdate \<Rightarrow> string list" where
  "getDxSystems dateStart dateEnd =
     push_default ''icd10''
       ((if date_ge dateEnd ICD10_START then [''icd10''] else []) @
        (if date_lt dateStart ICD10_START then [''icd9''] else []))"

definition getMedicationSystems :: "bool \<Rightarrow> bool \<Rightarrow> bool \<Rightarrow> bool \<Rightarrow> string list" where
  "getMedicationSystems beforeEpic afterEpic outpatient inpatient =
     push_default ''epic''
       ((if afterEpic then [''epic''] else []) @
        (if beforeEpic \<and> inpatient then [''meditech''] else []) @
        (if beforeEpic \<and> outpatient then [''centricity''] else []))"

definition getLabSystems :: "bool \<Rightarrow> bool \<Rightarrow> string list" where
  "getLabSystems beforeEpic afterEpic =
     push_default ''epic''
       ((if afterEpic then [''epic''] else []) @
        (if beforeEpic then [''meditech''] else []))"

definition getProcedureSystems :: "bool \<Rightarrow> bool \<Rightarrow> string list" where
  "getProcedureSystems beforeEpic afterEpic =
     push_default ''epic''
       ((if afterEpic then [''epic''] else []) @
        (if beforeEpic then [''gecb''] else []))"

definition getLocationSystems :: "bool \<Rightarrow> bool \<Rightarrow> bool \<Rightarrow> bool \<Rightarrow> string list" where
  "getLocationSystems beforeEpic afterEpic outpatient inpatient =
     push_default ''epic''
       ((if afterEpic then [''epic''] else []) @
        (if beforeEpic \<and> outpatient then [''gecb''] else []) @
        (if beforeEpic \<and> inpatient then [''meditech''] else []))"

definition getActiveSystems ::
  "string \<Rightarrow> jsdate \<Rightarrow> jsdate \<Rightarrow> bool \<Rightarrow> bool \<Rightarrow> string list" where
  "getActiveSystems type dateStart dateEnd outpatient inpatient =
     (let beforeEpic = date_lt dateStart EPIC_GOLIVE;
          afterEpic = date_ge dateEnd EPIC_GOLIVE
      in if type = ''dx'' then getDxSystems dateStart dateEnd
         else if type = ''medication'' then
           getMedicationSystems beforeEpic afterEpic outpatient inpatient
         else if type = ''lab'' then getLabSystems beforeEpic afterEpic
         else if type = ''location'' then
           getLocationSystems beforeEpic afterEpic outpatient inpatient
         else if type = ''procedure'' then getProcedureSystems beforeEpic afterEpic
         else [])"

text \<open>The five dictionary types the resolver knows.\<close>

definition dictionary_types :: "string list" where
  "dictionary_types = [''dx'', ''medication'', ''lab'', ''location'', ''procedure'']"

section \<open>JavaScript values carried by dictionary rows\<close>

text \<open>
  A row is a JavaScript object: its own enumerable keys in \<^verbatim>\<open>Object.keys\<close> order, each
  with a value. The values rows carry are the strings of the loaded columns, the boolean
  \<^verbatim>\<open>desired\<close> flag, and \<^verbatim>\<open>null\<close>/\<^verbatim>\<open>undefined\<close> for an absent cell.
\<close>

datatype jsval = JUndefined | JNull | JBool bool | JStr string

type_synonym row = "(string \<times> jsval) list"

text \<open>Truthiness, as \<^verbatim>\<open>v ? a : b\<close>, \<^verbatim>\<open>!v\<close> and \<^verbatim>\<open>v || d\<close> test it.\<close>

fun truthy :: "jsval \<Rightarrow> bool" where
  "truthy JUndefined = False"
| "truthy JNull = False"
| "truthy (JBool b) = b"
| "truthy (JStr s) = (s \<noteq> [])"

text \<open>\<^verbatim>\<open>String(v)\<close>, and \<^verbatim>\<open>v.toString()\<close> where \<open>v\<close> is neither null nor undefined.\<close>

fun toString :: "jsval \<Rightarrow> string" where
  "toString JUndefined = ''undefined''"
| "toString JNull = ''null''"
| "toString (JBool b) = (if b then ''true'' else ''false'')"
| "toString (JStr s) = s"

text \<open>Property read \<^verbatim>\<open>row[col]\<close>: \<^verbatim>\<open>undefined\<close> for a key the object lacks.\<close>

definition get :: "row \<Rightarrow> string \<Rightarrow> jsval" where
  "get r col = (case map_of r col of None \<Rightarrow> JUndefined | Some v \<Rightarrow> v)"


text \<open>
  \<^verbatim>\<open>String.prototype.toLowerCase\<close> on the characters \<open>string\<close> has: the letters A to Z
  move to a to z and every other character stays.
\<close>

definition lower_char :: "char \<Rightarrow> char" where
  "lower_char c =
     (let n = (of_char c :: nat) in if 65 \<le> n \<and> n \<le> 90 then char_of (n + 32) else c)"

definition toLowerCase :: "string \<Rightarrow> string" where
  "toLowerCase s = map lower_char s"

text \<open>
  \<^verbatim>\<open>s.indexOf(t)\<close>: the least position at which \<open>t\<close> occurs in \<open>s\<close>, or \<open>-1\<close>.
\<close>

fun indexOfFrom :: "string \<Rightarrow> string \<Rightarrow> int \<Rightarrow> int" where
  "indexOfFrom [] t i = (if t = [] then i else - 1)"
| "indexOfFrom (c # s) t i = (if prefix t (c # s) then i else indexOfFrom s t (i + 1))"

definition indexOf :: "string \<Rightarrow> string \<Rightarrow> int" where
  "indexOf s t = indexOfFrom s t 0"

section \<open>Keyword matching (countMatches in csv-download.js and github-push.js)\<close>

definition is_star :: "char \<Rightarrow> bool" where
  "is_star c = (c = CHR ''*'')"

text \<open>\<^verbatim>\<open>.replace(/^\*+|\*+$/g, '')\<close>: the leading and the trailing run of stars go.\<close>

definition stripStars :: "string \<Rightarrow> string" where
  "stripStars s = rev (dropWhile is_star (rev (dropWhile is_star s)))"

definition kwCore :: "string \<Rightarrow> string" where
  "kwCore kw = stripStars (toLowerCase kw)"

text \<open>\<^verbatim>\<open>(v || '').toString().toLowerCase().indexOf(core) !== -1\<close>\<close>

definition valueMatches :: "string \<Rightarrow> jsval \<Rightarrow> bool" where
  "valueMatches core v =
     (indexOf (toLowerCase (toString (if truthy v then v else JStr []))) core \<noteq> - 1)"

text \<open>\<^verbatim>\<open>Object.values(row).some(...)\<close>\<close>

definition rowMatches :: "string \<Rightarrow> row \<Rightarrow> bool" where
  "rowMatches core r = list_ex (valueMatches core) (map snd r)"

definition countMatches :: "string \<Rightarrow> row list \<Rightarrow> nat" where
  "countMatches kw matchingData =
     (let core = kwCore kw
      in if core = [] then 0 else length (filter (rowMatches core) matchingData))"

text \<open>
  The predicate a keyword puts on one candidate string inside \<open>countMatches\<close>: the guard
  on the empty core, then the \<open>indexOf\<close> test on the lower-cased candidate.
\<close>

definition keywordPredicate :: "string \<Rightarrow> string \<Rightarrow> bool" where
  "keywordPredicate kw candidate =
     (let core = kwCore kw
      in if core = [] then False else indexOf (toLowerCase candidate) core \<noteq> - 1)"

section \<open>CSV export (csv-download.js, github-push.js)\<close>

definition comma :: char where "comma = CHR '',''"
definition dquote :: char where "dquote = CHR 0x22"
definition newline :: char where "newline = CHR 0x0A"

text \<open>\<^verbatim>\<open>val.replace(/"/g, '""')\<close>\<close>

definition doubleQuotes :: "string \<Rightarrow> string" where
  "doubleQuotes val = concat (map (\<lambda>c. if c = dquote then [dquote, dquote] else [c]) val)"

text \<open>
  The quoting step that \<open>download\<close>, \<open>buildCsvContent\<close> and \<open>csvQuote\<close> all apply to the
  string form of a value.
\<close>

definition quoteField :: "string \<Rightarrow> string" where
  "quoteField val =
     (if comma \<in> set val \<or> dquote \<in> set val \<or> newline \<in> set val
      then [dquote] @ doubleQuotes val @ [dquote] else val)"

text \<open>\<^verbatim>\<open>String(val == null ? '' : val)\<close>, then the quoting.\<close>

definition csvQuote :: "jsval \<Rightarrow> string" where
  "csvQuote val =
     quoteField (toString (if val = JNull \<or> val = JUndefined then JStr [] else val))"





text \<open>One cell of a data line, before the cells are joined.\<close>

definition cell :: "row \<Rightarrow> string \<Rightarrow> string" where
  "cell r col =
     (let val = (if col = ''desired''
                 then JStr (if truthy (get r ''desired'') then ''TRUE'' else ''FALSE'')
                 else get r col);
          val = (if val = JUndefined \<or> val = JNull then JStr [] else val)
      in quoteField (toString val))"








text \<open>
  Reading one emitted field back, the way a CSV reader does: a field that opens and
  closes with a double quote loses the two and has every doubled quote collapsed; any
  other field is taken as it is.
\<close>

fun collapseQuotes :: "string \<Rightarrow> string" where
  "collapseQuotes (a # b # s) =
     (if a = dquote \<and> b = dquote then dquote # collapseQuotes s
      else a # collapseQuotes (b # s))"
| "collapseQuotes s = s"

definition csvUnquote :: "string \<Rightarrow> string" where
  "csvUnquote field =
     (if 2 \<le> length field \<and> hd field = dquote \<and> last field = dquote
      then collapseQuotes (butlast (tl field)) else field)"

section \<open>Reload epochs\<close>








section \<open>Properties of the resolver\<close>

lemma push_default_nonempty: "push_default d systems \<noteq> []"
  by (simp add: push_default_def)

lemma push_default_Nil: "push_default d [] = [d]"
  by (simp add: push_default_def)

lemma push_default_Cons: "push_default d (x # xs) = x # xs"
  by (simp add: push_default_def)

lemma date_lt_not_ge: "date_lt e c \<Longrightarrow> \<not> date_ge e c"
  by (cases e; cases c) auto

lemma date_range_before:
  "date_le s e \<Longrightarrow> date_lt e c \<Longrightarrow> date_lt s c \<and> \<not> date_ge e c"
  by (cases s; cases e; cases c) auto

text \<open>
  C1. For type dx the result holds icd10 exactly when the end date is on or after
  2015-10-01 and icd9 exactly when the start date is before it, whenever one of the two
  holds; it is icd10 alone when neither holds; a range that straddles the date gives
  icd10 and icd9 and nothing else; the outpatient and inpatient flags play no part.
\<close>

theorem dx_systems:
  "(let R = getActiveSystems ''dx'' dateStart dateEnd outpatient inpatient;
        late = date_ge dateEnd ICD10_START; early = date_lt dateStart ICD10_START
    in (late \<or> early \<longrightarrow> (''icd10'' \<in> set R \<longleftrightarrow> late) \<and> (''icd9'' \<in> set R \<longleftrightarrow> early))
     \<and> (\<not> late \<and> \<not> early \<longrightarrow> R = [''icd10''])
     \<and> (early \<and> late \<longrightarrow> R = [''icd10'', ''icd9''] \<and> set R = {''icd9'', ''icd10''})
     \<and> set R \<subseteq> {''icd9'', ''icd10''}
     \<and> R = getActiveSystems ''dx'' dateStart dateEnd outpatient' inpatient')"
  by (auto simp add: Let_def getActiveSystems_def getDxSystems_def push_default_def)

theorem dx_systems_witness:
  "date_lt (TimeValue 1262304000000) ICD10_START
   \<and> date_ge (TimeValue 1577836800000) ICD10_START
   \<and> getActiveSystems ''dx'' (TimeValue 1262304000000) (TimeValue 1577836800000) False True
       = [''icd10'', ''icd9'']"
  using dx_systems [of "TimeValue 1262304000000" "TimeValue 1577836800000" False True]
  by (simp add: ICD10_START_def Let_def)

text \<open>
  C2. For type medication the result holds epic when the end date is on or after
  2023-06-03, meditech exactly when the start date is before it and inpatient is set,
  centricity exactly when the start date is before it and outpatient is set, and no
  other system; when the three rules give nothing the result is epic alone. With both
  flags off, the range 2024-01-01 to 2024-06-01 and every range that ends before
  2023-06-03 give epic alone.
\<close>

theorem medication_systems:
  "(let R = getActiveSystems ''medication'' dateStart dateEnd outpatient inpatient;
        after = date_ge dateEnd EPIC_GOLIVE; before = date_lt dateStart EPIC_GOLIVE
    in (after \<longrightarrow> ''epic'' \<in> set R)
     \<and> (''meditech'' \<in> set R \<longleftrightarrow> before \<and> inpatient)
     \<and> (''centricity'' \<in> set R \<longleftrightarrow> before \<and> outpatient)
     \<and> set R \<subseteq> {''epic'', ''meditech'', ''centricity''}
     \<and> (''epic'' \<in> set R \<longrightarrow> after \<or> \<not> (before \<and> inpatient) \<and> \<not> (before \<and> outpatient))
     \<and> (\<not> after \<and> \<not> (before \<and> inpatient) \<and> \<not> (before \<and> outpatient) \<longrightarrow> R = [''epic'']))
   \<and> getActiveSystems ''medication'' (TimeValue 1704067200000) (TimeValue 1717200000000)
        False False = [''epic'']
   \<and> (date_lt dateEnd EPIC_GOLIVE \<longrightarrow>
        getActiveSystems ''medication'' dateStart dateEnd False False = [''epic''])"
  using date_lt_not_ge [of dateEnd EPIC_GOLIVE]
  by (auto simp add: Let_def getActiveSystems_def getMedicationSystems_def push_default_def
      EPIC_GOLIVE_def)

theorem medication_systems_witness:
  "date_lt (TimeValue 1640995200000) EPIC_GOLIVE
   \<and> date_lt (TimeValue 1577836800000) EPIC_GOLIVE
   \<and> getActiveSystems ''medication'' (TimeValue 1577836800000) (TimeValue 1640995200000)
        False False = [''epic'']
   \<and> set (getActiveSystems ''medication'' (TimeValue 1577836800000)
        (TimeValue 1704067200000) True True) = {''epic'', ''meditech'', ''centricity''}"
  using medication_systems [of "TimeValue 1577836800000" "TimeValue 1640995200000" True True]
    medication_systems [of "TimeValue 1577836800000" "TimeValue 1704067200000" True True]
  by (auto simp add: EPIC_GOLIVE_def Let_def)

text \<open>
  C3. For type location the result holds epic when the end date is on or after
  2023-06-03, gecb exactly when the start date is before it and outpatient is set,
  meditech exactly when the start date is before it and inpatient is set, and epic
  alone when the three rules give nothing. With both flags set, every pair of dates
  before 2023-06-03, and so every range (start no later than end) that ends before
  it, gives gecb and meditech, without epic.
\<close>

theorem location_systems:
  "(let R = getActiveSystems ''location'' dateStart dateEnd outpatient inpatient;
        after = date_ge dateEnd EPIC_GOLIVE; before = date_lt dateStart EPIC_GOLIVE
    in (after \<longrightarrow> ''epic'' \<in> set R)
     \<and> (''gecb'' \<in> set R \<longleftrightarrow> before \<and> outpatient)
     \<and> (''meditech'' \<in> set R \<longleftrightarrow> before \<and> inpatient)
     \<and> set R \<subseteq> {''epic'', ''gecb'', ''meditech''}
     \<and> (\<not> after \<and> \<not> (before \<and> outpatient) \<and> \<not> (before \<and> inpatient) \<longrightarrow> R = [''epic'']))
   \<and> (date_lt dateStart EPIC_GOLIVE \<and> date_lt dateEnd EPIC_GOLIVE \<longrightarrow>
        getActiveSystems ''location'' dateStart dateEnd True True = [''gecb'', ''meditech''])
   \<and> (date_le dateStart dateEnd \<and> date_lt dateEnd EPIC_GOLIVE \<longrightarrow>
        getActiveSystems ''location'' dateStart dateEnd True True = [''gecb'', ''meditech'']
        \<and> set (getActiveSystems ''location'' dateStart dateEnd True True)
            = {''gecb'', ''meditech''}
        \<and> ''epic'' \<notin> set (getActiveSystems ''location'' dateStart dateEnd True True))"
  using date_range_before [of dateStart dateEnd EPIC_GOLIVE]
    date_lt_not_ge [of dateEnd EPIC_GOLIVE]
  by (auto simp add: Let_def getActiveSystems_def getLocationSystems_def push_default_def)

theorem location_systems_witness:
  "date_le (TimeValue 1577836800000) (TimeValue 1640995200000)
   \<and> date_lt (TimeValue 1577836800000) EPIC_GOLIVE
   \<and> date_lt (TimeValue 1640995200000) EPIC_GOLIVE
   \<and> getActiveSystems ''location'' (TimeValue 1577836800000) (TimeValue 1640995200000)
        True True = [''gecb'', ''meditech'']"
  using location_systems [of "TimeValue 1577836800000" "TimeValue 1640995200000" True True]
  by (simp add: EPIC_GOLIVE_def Let_def)

text \<open>
  C4. For each of the five dictionary types, every pair of dates (invalid ones too) and
  every setting of the two flags, the result is a non-empty list of systems; the
  function has no failing branch.
\<close>

theorem active_systems_nonempty:
  "type \<in> set dictionary_types \<Longrightarrow>
     getActiveSystems type dateStart dateEnd outpatient inpatient \<noteq> []"
  by (auto simp add: dictionary_types_def getActiveSystems_def Let_def getDxSystems_def
      getMedicationSystems_def getLabSystems_def getLocationSystems_def
      getProcedureSystems_def push_default_nonempty)

theorem active_systems_nonempty_witness:
  "''lab'' \<in> set dictionary_types
   \<and> getActiveSystems ''lab'' InvalidDate InvalidDate False False \<noteq> []"
  using active_systems_nonempty [of "''lab''" InvalidDate InvalidDate False False]
  by (simp add: dictionary_types_def)

text \<open>
  C9. For a type string outside the five dictionary types the result is the empty list,
  whatever the dates and flags: no default is pushed.
\<close>

theorem unknown_type_no_systems:
  "type \<notin> set dictionary_types \<Longrightarrow>
     getActiveSystems type dateStart dateEnd outpatient inpatient = []"
  by (simp add: dictionary_types_def getActiveSystems_def)

theorem unknown_type_no_systems_witness:
  "''encounter'' \<notin> set dictionary_types
   \<and> getActiveSystems ''encounter'' (TimeValue 1262304000000) (TimeValue 1577836800000)
        True True = []"
  using unknown_type_no_systems
    [of "''encounter''" "TimeValue 1262304000000" "TimeValue 1577836800000" True True]
  by (simp add: dictionary_types_def)

section \<open>Properties of keyword matching\<close>











lemma valueMatches_keywordPredicate:
  "kwCore kw \<noteq> [] \<Longrightarrow>
     valueMatches (kwCore kw) v = keywordPredicate kw (toString (if truthy v then v else JStr []))"
  by (simp add: valueMatches_def keywordPredicate_def Let_def)

lemma countMatches_keywordPredicate:
  "countMatches kw matchingData =
     length (filter (\<lambda>r. list_ex (\<lambda>v. keywordPredicate kw
                (toString (if truthy v then v else JStr []))) (map snd r)) matchingData)"
proof (cases "kwCore kw = []")
  case True
  then show ?thesis by (simp add: countMatches_def keywordPredicate_def list_ex_iff)
next
  case False
  then have "rowMatches (kwCore kw) = (\<lambda>r. list_ex (\<lambda>v. keywordPredicate kw
                (toString (if truthy v then v else JStr []))) (map snd r))"
    unfolding rowMatches_def valueMatches_def keywordPredicate_def Let_def by presburger
  with False show ?thesis
    by (simp only: countMatches_def Let_def if_False)
qed





text \<open>
  C6. A keyword whose core is empty (the empty string, \<open>*\<close>, \<open>***\<close>) matches no
  candidate string, and \<open>countMatches\<close> counts no row for it.
\<close>

theorem kw_empty_core:
  "kwCore kw = [] \<Longrightarrow> \<not> keywordPredicate kw candidate \<and> countMatches kw matchingData = 0"
  by (simp add: keywordPredicate_def countMatches_def)

theorem kw_empty_core_witness:
  "kwCore [] = [] \<and> kwCore ''*'' = [] \<and> kwCore ''***'' = []
   \<and> \<not> keywordPredicate ''***'' ''anything''
   \<and> countMatches ''***'' [[(''name'', JStr ''anything'')]] = 0"
proof -
  have a: "kwCore [] = []" and b: "kwCore ''*'' = []" and c: "kwCore ''***'' = []"
    by code_simp+
  from a b c kw_empty_core [OF c, of "''anything''" "[[(''name'', JStr ''anything'')]]"]
  show ?thesis by blast
qed

section \<open>Properties of the CSV export\<close>

lemma collapseQuotes_plain: "a \<noteq> dquote \<Longrightarrow> collapseQuotes (a # s) = a # collapseQuotes s"
  by (cases s) simp_all

lemma collapse_doubleQuotes: "collapseQuotes (doubleQuotes s) = s"
proof (induction s)
  case Nil
  then show ?case by (simp add: doubleQuotes_def)
next
  case (Cons c s)
  then show ?case
    by (cases "c = dquote") (simp_all add: doubleQuotes_def collapseQuotes_plain)
qed

lemma csvUnquote_quoted: "csvUnquote ([dquote] @ doubleQuotes s @ [dquote]) = s"
  by (simp add: csvUnquote_def collapse_doubleQuotes butlast_append)

lemma csvUnquote_plain: "dquote \<notin> set s \<Longrightarrow> csvUnquote s = s"
  by (cases s) (auto simp add: csvUnquote_def)

lemma csvUnquote_quoteField: "csvUnquote (quoteField s) = s"
proof (cases "comma \<in> set s \<or> dquote \<in> set s \<or> newline \<in> set s")
  case True
  then have "quoteField s = [dquote] @ doubleQuotes s @ [dquote]"
    by (simp only: quoteField_def if_True)
  then show ?thesis by (simp only: csvUnquote_quoted)
next
  case False
  then have "quoteField s = s" and "dquote \<notin> set s"
    by (simp_all only: quoteField_def if_False) blast
  then show ?thesis by (simp add: csvUnquote_plain)
qed


text \<open>
  C10. \<open>csvQuote\<close> wraps a string in double quotes, with every double quote in it
  doubled, exactly when the string holds a comma, a double quote or a newline, and
  returns it as it is otherwise; reading the emitted field back gives the string again.
  The cells that \<open>download\<close> writes for string values are quoted the same way.
\<close>

theorem csv_quote_roundtrip:
  "csvQuote (JStr s) =
     (if comma \<in> set s \<or> dquote \<in> set s \<or> newline \<in> set s
      then [dquote] @ doubleQuotes s @ [dquote] else s)
   \<and> csvUnquote (csvQuote (JStr s)) = s
   \<and> (col \<noteq> ''desired'' \<and> get r col = JStr s \<longrightarrow>
        cell r col = csvQuote (JStr s) \<and> csvUnquote (cell r col) = s)"
proof -
  have q: "csvQuote (JStr s) = quoteField s" by (simp add: csvQuote_def)
  have c: "col \<noteq> ''desired'' \<and> get r col = JStr s \<longrightarrow> cell r col = quoteField s"
    by (simp add: cell_def)
  from q c show ?thesis
    by (simp add: csvUnquote_quoteField) (simp add: quoteField_def)
qed

theorem csv_quote_roundtrip_witness:
  "''name'' \<noteq> ''desired''
   \<and> get [(''name'', JStr [CHR ''a'', CHR 0x22, CHR '','', CHR ''b''])] ''name''
        = JStr [CHR ''a'', CHR 0x22, CHR '','', CHR ''b'']
   \<and> csvQuote (JStr [CHR ''a'', CHR 0x22, CHR '','', CHR ''b''])
        = [CHR 0x22, CHR ''a'', CHR 0x22, CHR 0x22, CHR '','', CHR ''b'', CHR 0x22]
   \<and> csvUnquote (cell [(''name'', JStr [CHR ''a'', CHR 0x22, CHR '','', CHR ''b''])] ''name'')
        = [CHR ''a'', CHR 0x22, CHR '','', CHR ''b'']"
proof -
  note t = csv_quote_roundtrip [of "[CHR ''a'', CHR 0x22, CHR '','', CHR ''b'']" "''name''"
      "[(''name'', JStr [CHR ''a'', CHR 0x22, CHR '','', CHR ''b''])]"]
  have h1: "''name'' \<noteq> ''desired''" by simp
  have h2: "get [(''name'', JStr [CHR ''a'', CHR 0x22, CHR '','', CHR ''b''])] ''name''
        = JStr [CHR ''a'', CHR 0x22, CHR '','', CHR ''b'']"
    by (simp add: get_def)
  have q: "csvQuote (JStr [CHR ''a'', CHR 0x22, CHR '','', CHR ''b''])
        = [CHR 0x22, CHR ''a'', CHR 0x22, CHR 0x22, CHR '','', CHR ''b'', CHR 0x22]"
    by (simp add: csvQuote_def quoteField_def doubleQuotes_def dquote_def comma_def)
  from t h1 h2 q show ?thesis by blast
qed












section \<open>Properties of the reload epochs\<close>








end
